theory Spec2Isabelle
  imports Complex_Main
begin

section \<open>MIDAS engine: numbers, errors and library functions\<close>

text \<open>
  The engine of \<^verbatim>\<open>MIDAS/engine.py\<close> computes on \<^verbatim>\<open>float32\<close> and Python complex
  numbers. They are embedded as \<^typ>\<open>real\<close> and \<^typ>\<open>complex\<close>: rounding is not
  modelled, every other step of the source is. A Python exception is a value of
  \<open>error\<close>; \<open>NotANumber\<close> is not an exception: it stands for a float computation that
  goes on with a nan, a value the reals do not have.
\<close>

datatype error =
    KeyError
  | ValueError
  | IndexError
  | TypeError
  | AttributeError
  | UnboundLocalError
  | NotANumber

text \<open>\<^verbatim>\<open>cmath.phase\<close>: the principal argument, in the interval from \<open>-pi\<close> (excluded)
  to \<open>pi\<close>, and 0 at the origin.\<close>

definition phase :: "complex \<Rightarrow> real" where
  "phase z = Arg z"

text \<open>\<^verbatim>\<open>cmath.rect(r, phi)\<close> is \<open>r * (cos phi + i sin phi)\<close>, for any sign of \<open>r\<close>.\<close>

definition rect :: "real \<Rightarrow> real \<Rightarrow> complex" where
  "rect r phi = complex_of_real r * cis phi"

text \<open>\<^verbatim>\<open>math.asin\<close> has no value outside \<open>[-1, 1]\<close>: the interpreter raises
  \<^verbatim>\<open>ValueError\<close> (a device build yields a NaN there).\<close>

definition asin :: "real \<Rightarrow> error + real" where
  "asin x = (if - 1 \<le> x \<and> x \<le> 1 then Inr (arcsin x) else Inl ValueError)"

section \<open>The device function \<^verbatim>\<open>assign_2d\<close>\<close>

text \<open>The crossing angle \<^verbatim>\<open>phi\<close> of the reflexive circular branch (line 558). The
  division is a float division: by a zero radius it gives an infinity, where
  \<^verbatim>\<open>math.asin\<close> raises, or, for a zero offset, a nan, which \<^verbatim>\<open>math.asin\<close> hands on.\<close>

definition crossing_phi :: "complex \<Rightarrow> complex \<Rightarrow> real \<Rightarrow> error + real" where
  "crossing_phi z0 zv arena_X =
     (let x = Im z0 * cos (phase zv) - Re z0 * sin (phase zv) in
      if arena_X = 0 then (if x = 0 then Inl NotANumber else Inl ValueError)
      else case asin (x / arena_X) of
             Inl e \<Rightarrow> Inl e
           | Inr a \<Rightarrow> Inr (phase zv + a))"

text \<open>
  \<^verbatim>\<open>assign_2d(z0, z1, zv, arena, arena_X, arena_Y, periodic_X, periodic_Y)\<close>.
  The flags are numbers read from the parameter array: \<^verbatim>\<open>arena==0\<close> is circular,
  \<^verbatim>\<open>arena==1\<close> rectangular, and \<^verbatim>\<open>if periodic_X:\<close> is the test \<open>periodic_X \<noteq> 0\<close>.
  With any other arena flag \<^verbatim>\<open>px\<close> is never bound and the \<^verbatim>\<open>return\<close> fails.
\<close>

definition assign_2d ::
  "complex \<Rightarrow> complex \<Rightarrow> complex \<Rightarrow> real \<Rightarrow> real \<Rightarrow> real \<Rightarrow> real \<Rightarrow> real
     \<Rightarrow> error + (real \<times> real \<times> real \<times> real)" where
  "assign_2d z0 z1 zv arena arena_X arena_Y periodic_X periodic_Y =
     (if arena = 0 then
        (if cmod z1 > arena_X then
           (if periodic_X \<noteq> 0 then
              (let z1' = rect (2 * arena_X - cmod z1) (phase z1 + pi)
               in Inr (Re z1', Im z1', Re zv, Im zv))
            else
              (case crossing_phi z0 zv arena_X of
                 Inl e \<Rightarrow> Inl e
               | Inr phi \<Rightarrow>
                   (let zc = rect arena_X phi;
                        z1' = zc + complex_of_real (cmod zv - cmod (zc - z0))
                                   * exp (\<i> * complex_of_real (pi + 2 * phi - phase zv));
                        zv' = zv * exp (\<i> * complex_of_real (pi - 2 * (phase zv - phi)))
                    in Inr (Re z1', Im z1', Re zv', Im zv'))))
         else Inr (Re z1, Im z1, Re zv, Im zv))
      else if arena = 1 then
        (let (px, vx) =
               (if periodic_X \<noteq> 0 then
                  ((if Re z1 > arena_X then Re z1 - 2 * arena_X
                    else if Re z1 < - arena_X then Re z1 + 2 * arena_X
                    else Re z1),
                   Re zv)
                else
                  (if Re z1 > arena_X then (2 * arena_X - Re z1, - Re zv)
                   else if Re z1 < - arena_X then (- 2 * arena_X - Re z1, - Re zv)
                   else (Re z1, Re zv)));
             (py, vy) =
               (if periodic_Y \<noteq> 0 then
                  ((if Im z1 > arena_Y then Im z1 - 2 * arena_Y
                    else if Im z1 < - arena_Y then Im z1 + 2 * arena_Y
                    else Im z1),
                   Im zv)
                else
                  (if Im z1 > arena_Y then (2 * arena_Y - Im z1, - Im zv)
                   else if Im z1 < - arena_Y then (- 2 * arena_Y - Im z1, - Im zv)
                   else (Im z1, Im zv)))
         in Inr (px, py, vx, vy))
      else Inl UnboundLocalError)"

section \<open>Arrays and exceptions\<close>

text \<open>A two-dimensional array is the list of its rows. An index out of range raises
  \<^verbatim>\<open>IndexError\<close>.\<close>

definition get1 :: "'a list \<Rightarrow> nat \<Rightarrow> error + 'a" where
  "get1 a i = (if i < length a then Inr (a ! i) else Inl IndexError)"

definition get2 :: "real list list \<Rightarrow> nat \<Rightarrow> nat \<Rightarrow> error + real" where
  "get2 a i j = (if i < length a \<and> j < length (a ! i) then Inr (a ! i ! j) else Inl IndexError)"

definition set2 :: "real list list \<Rightarrow> nat \<Rightarrow> nat \<Rightarrow> real \<Rightarrow> error + real list list" where
  "set2 a i j x =
     (if i < length a \<and> j < length (a ! i) then Inr (a[i := (a ! i)[j := x]]) else Inl IndexError)"

text \<open>Sequencing: \<open>raising m s k\<close> stops with the exception of \<open>m\<close>, leaving the state
  \<open>s\<close> reached so far, or goes on with the value of \<open>m\<close>.\<close>

definition raising :: "error + 'a \<Rightarrow> 's \<Rightarrow> ('a \<Rightarrow> error option \<times> 's) \<Rightarrow> error option \<times> 's" where
  "raising m s k = (case m of Inl e \<Rightarrow> (Some e, s) | Inr x \<Rightarrow> k x)"

definition bindE :: "error + 'a \<Rightarrow> ('a \<Rightarrow> error + 'b) \<Rightarrow> error + 'b" where
  "bindE m k = (case m of Inl e \<Rightarrow> Inl e | Inr x \<Rightarrow> k x)"

section \<open>The kernel \<^verbatim>\<open>CUDA_step\<close>\<close>

text \<open>
  The generator of \<^verbatim>\<open>numba.cuda.random\<close> is not part of the repository; it is a
  parameter: \<open>init_state seed i\<close> is the state that
  \<^verbatim>\<open>create_xoroshiro128p_states(n, seed)\<close> gives lane \<open>i\<close>, and \<open>normal_float32\<close> is
  \<^verbatim>\<open>xoroshiro128p_normal_float32\<close> on one lane's state: the sample and the state after it.
\<close>

record 'r rng_lib =
  init_state :: "nat \<Rightarrow> nat \<Rightarrow> 'r"
  normal_float32 :: "'r \<Rightarrow> real \<times> 'r"

text \<open>The state of a lane's generator after one draw.\<close>

definition next_state :: "'r rng_lib \<Rightarrow> 'r \<Rightarrow> 'r" where
  "next_state lib s = snd (normal_float32 lib s)"

text \<open>The state a lane writes: the destination buffers \<^verbatim>\<open>p1\<close>, \<^verbatim>\<open>v1\<close> and the
  generator states.\<close>

type_synonym 'r kstate = "real list list \<times> real list list \<times> 'r list"

text \<open>Lines 440-442, \<^verbatim>\<open>for j in range(dim): p1[i,j] = p0[i,j]\<close>.\<close>

fun copy_cells :: "nat list \<Rightarrow> real list list \<Rightarrow> real list list \<Rightarrow> nat
    \<Rightarrow> error option \<times> real list list" where
  "copy_cells [] p0 p1 i = (None, p1)"
| "copy_cells (j # js) p0 p1 i =
     (case get2 p0 i j of
        Inl e \<Rightarrow> (Some e, p1)
      | Inr x \<Rightarrow> (case set2 p1 i j x of
                    Inl e \<Rightarrow> (Some e, p1)
                  | Inr p1' \<Rightarrow> copy_cells js p0 p1' i))"

text \<open>Lines 459-491: \<^verbatim>\<open>arena = param[0]\<close>, then the reads of \<^verbatim>\<open>match dim\<close>. Only the
  two-dimensional case binds the five values that the update uses; for any other
  \<^verbatim>\<open>dim\<close> the result is \<open>None\<close> (the names \<^verbatim>\<open>arena_Y\<close>, \<^verbatim>\<open>periodic_Y\<close> are unbound or
  unused there).\<close>

definition deserialize :: "nat \<Rightarrow> real list \<Rightarrow> error + (real \<times> real \<times> real \<times> real \<times> real) option" where
  "deserialize ndim param =
     (if length param < 1 then Inl IndexError
      else if ndim = 1 then (if length param < 3 then Inl IndexError else Inr None)
      else if ndim = 2 then
        (if length param < 5 then Inl IndexError
         else Inr (Some (param ! 0, param ! 1, param ! 2, param ! 3, param ! 4)))
      else if ndim = 3 then (if length param < 7 then Inl IndexError else Inr None)
      else Inr None)"

text \<open>
  One lane \<^verbatim>\<open>i = cuda.grid(1)\<close> with \<^verbatim>\<open>i < p0.shape[0]\<close>; \<^verbatim>\<open>dim\<close> is \<^verbatim>\<open>p0.shape[1]\<close>,
  the length of a row. The fixed-points block has no \<^verbatim>\<open>return\<close>: the lane goes on.
  \<^verbatim>\<open>da\<close> is bound for type 1 only, and read in the two-dimensional update.
\<close>

definition CUDA_step_lane ::
  "('r \<Rightarrow> real \<times> 'r) \<Rightarrow> nat \<Rightarrow> real list \<Rightarrow> real list list \<Rightarrow> real list list
     \<Rightarrow> real list list \<Rightarrow> real list \<Rightarrow> 'r kstate \<Rightarrow> error option \<times> 'r kstate" where
  "CUDA_step_lane normal i atype p0 v0 noise param s0 =
     (case s0 of (p1, v1, rng) \<Rightarrow>
      let ndim = length (p0 ! i) in
      raising (get1 atype i) s0 (\<lambda>ty.
      case (if ty = 0 then copy_cells [0..<ndim] p0 p1 i else (None, p1)) of
        (Some e, p1a) \<Rightarrow> (Some e, (p1a, v1, rng))
      | (None, p1a) \<Rightarrow>
          let s1 = (p1a, v1, rng) in
          raising (deserialize ndim param) s1 (\<lambda>prm.
          raising (get2 v0 i 0) s1 (\<lambda>v0x.
          raising (get2 v0 i 1) s1 (\<lambda>v0y.
          let zv = Complex v0x v0y;
              da = (if ty = 1 then Inr 0 else Inl UnboundLocalError) in
          raising (get2 noise i 1) s1 (\<lambda>c.
          raising (get1 rng i) s1 (\<lambda>st.
          let g = fst (normal st);
              rng' = rng[i := snd (normal st)];
              an = c * g;
              s2 = (p1a, v1, rng') in
          if ndim = 2 then
            (raising da s2 (\<lambda>da.
             let zv' = zv * exp (\<i> * complex_of_real (da + an)) in
             raising (get2 p0 i 0) s2 (\<lambda>x0.
             raising (get2 p0 i 1) s2 (\<lambda>y0.
             let z0 = Complex x0 y0;
                 z1 = z0 + zv' in
             raising (case prm of None \<Rightarrow> Inl UnboundLocalError | Some q \<Rightarrow> Inr q) s2
               (\<lambda>(arena, arena_X, arena_Y, periodic_X, periodic_Y).
             raising (assign_2d z0 z1 zv' arena arena_X arena_Y periodic_X periodic_Y) s2
               (\<lambda>(px, py, vx, vy).
             raising (set2 p1a i 0 px) s2 (\<lambda>p1b.
             raising (set2 p1b i 1 py) (p1b, v1, rng') (\<lambda>p1c.
             raising (set2 v1 i 0 vx) (p1c, v1, rng') (\<lambda>v1b.
             raising (set2 v1b i 1 vy) (p1c, v1b, rng') (\<lambda>v1c.
             (None, (p1c, v1c, rng'))))))))))))
          else (None, s2))))))))"

text \<open>The lanes of one launch, in index order; a lane touches row \<open>i\<close> and generator
  state \<open>i\<close> only, so the order does not matter. A lane that raises leaves its row as
  the exception finds it and the other lanes still run; the launch reports the first
  exception.\<close>

fun lanes ::
  "('r \<Rightarrow> real \<times> 'r) \<Rightarrow> nat list \<Rightarrow> real list \<Rightarrow> real list list \<Rightarrow> real list list
     \<Rightarrow> real list list \<Rightarrow> real list \<Rightarrow> 'r kstate \<Rightarrow> error option \<times> 'r kstate" where
  "lanes normal [] atype p0 v0 noise param s = (None, s)"
| "lanes normal (i # is) atype p0 v0 noise param s =
     (case CUDA_step_lane normal i atype p0 v0 noise param s of
        (r, s') \<Rightarrow>
          (case lanes normal is atype p0 v0 noise param s' of
             (r', s'') \<Rightarrow> ((case r of Some e \<Rightarrow> Some e | None \<Rightarrow> r'), s'')))"

text \<open>
  \<^verbatim>\<open>CUDA_step[gridDim, blockDim](i, atype, p0, v0, p1, v1, noise, group, param, rng)\<close>:
  \<open>gridDim * blockDim\<close> lanes, those with \<^verbatim>\<open>i < p0.shape[0]\<close> do the work. The step
  index passed first is overwritten by the lane index at once (line 432).
\<close>

definition CUDA_step ::
  "('r \<Rightarrow> real \<times> 'r) \<Rightarrow> nat \<Rightarrow> nat \<Rightarrow> nat \<Rightarrow> real list \<Rightarrow> real list list \<Rightarrow> real list list
     \<Rightarrow> real list list \<Rightarrow> real list list \<Rightarrow> real list list \<Rightarrow> real list \<Rightarrow> real list
     \<Rightarrow> 'r list \<Rightarrow> error option \<times> 'r kstate" where
  "CUDA_step normal gridDim blockDim istep atype p0 v0 p1 v1 noise group_col param rng =
     lanes normal (filter (\<lambda>i. i < length p0) [0..<gridDim * blockDim])
       atype p0 v0 noise param (p1, v1, rng)"

section \<open>Geometry, agents and the engine\<close>

text \<open>\<^verbatim>\<open>Geometry.periodic\<close> is one boolean for a circular arena and a list of booleans,
  one per axis, for a rectangular one.\<close>

datatype periodic_t = PBool bool | PList "bool list"

record geometry =
  dimension :: nat
  arena :: string
  arena_shape :: "real list"
  periodic :: "periodic_t option"

text \<open>\<^verbatim>\<open>Geometry.__init__(dimension, **kwargs)\<close> with the keywords \<^verbatim>\<open>arena\<close>,
  \<^verbatim>\<open>shape\<close>, \<^verbatim>\<open>periodic\<close>. The \<^verbatim>\<open>match\<close> has no default case: for an
  unknown arena the attribute \<^verbatim>\<open>periodic\<close> is never set (\<open>None\<close> here).\<close>

definition Geometry_init ::
  "nat \<Rightarrow> string option \<Rightarrow> real list option \<Rightarrow> periodic_t option \<Rightarrow> geometry" where
  "Geometry_init d arena_kw shape_kw periodic_kw =
     (let a = (case arena_kw of Some x \<Rightarrow> x | None \<Rightarrow> ''rectangular'')
      in \<lparr>dimension = d,
          arena = a,
          arena_shape = (case shape_kw of Some x \<Rightarrow> x | None \<Rightarrow> replicate d 1),
          periodic =
            (if a = ''circular'' then
               Some (case periodic_kw of Some x \<Rightarrow> x | None \<Rightarrow> PBool True)
             else if a = ''rectangular'' then
               Some (case periodic_kw of Some x \<Rightarrow> x | None \<Rightarrow> PList (replicate d True))
             else None)\<rparr>)"

text \<open>A Python value that a keyword argument of \<^verbatim>\<open>add_group\<close> can carry.\<close>

datatype pyval =
    PyNone
  | PyStr string
  | PyNum real
  | PyVec "real list"
  | PyArr "real list list"
  | PyDict "(string \<times> pyval) list"

text \<open>The class \<^verbatim>\<open>Agents\<close>: parallel arrays, one entry or row per agent. The field
  \<^verbatim>\<open>group\<close> is \<open>group_col\<close> here.\<close>

record agents =
  N_agents :: nat
  atype :: "nat list"
  pos :: "real list list"
  vel :: "real list list"
  noise :: "real list list"
  N_groups :: nat
  group_names :: "pyval list"
  group_col :: "nat list"

definition atypes :: "string list" where
  "atypes = [''fixed'', ''blind'', ''ripo'', ''rinno'']"

definition Agents_init :: agents where
  "Agents_init =
     \<lparr>N_agents = 0, atype = [], pos = [], vel = [], noise = [],
      N_groups = 0, group_names = [], group_col = []\<rparr>"

text \<open>The class \<^verbatim>\<open>CUDA\<close> once \<^verbatim>\<open>run\<close> has filled it; \<^verbatim>\<open>param\<close> is assigned last and
  is \<open>None\<close> until then. The fields \<^verbatim>\<open>atype\<close>, \<^verbatim>\<open>noise\<close>, \<^verbatim>\<open>group\<close> of the device side
  carry the suffix \<open>_dev\<close>.\<close>

record 'r cuda =
  blockDim :: nat
  gridDim :: nat
  param :: "real list option"
  p0 :: "real list list"
  v0 :: "real list list"
  p1 :: "real list list"
  v1 :: "real list list"
  atype_dev :: "real list"
  noise_dev :: "real list list"
  group_dev :: "real list"
  rng :: "'r list"

text \<open>The engine on the path without animation; \<^verbatim>\<open>cuda\<close> is \<open>None\<close> while every field
  of the \<^verbatim>\<open>CUDA\<close> object still is. \<^verbatim>\<open>steps\<close> is a number (the source also allows
  \<^verbatim>\<open>None\<close>, a loop without end, which is left out).\<close>

record 'r engine =
  geom :: geometry
  agents :: agents
  cuda :: "'r cuda option"
  steps :: nat

definition Engine_init ::
  "nat \<Rightarrow> string option \<Rightarrow> real list option \<Rightarrow> periodic_t option \<Rightarrow> 'r engine" where
  "Engine_init d arena_kw shape_kw periodic_kw =
     \<lparr>geom = Geometry_init d arena_kw shape_kw periodic_kw,
      agents = Agents_init, cuda = None, steps = 1\<rparr>"

section \<open>Initial conditions and \<^verbatim>\<open>Engine.add_group\<close>\<close>

text \<open>The draws of \<^verbatim>\<open>np.random\<close> are inputs: \<open>rand_nd\<close> is \<^verbatim>\<open>rand(n, dimension)\<close>,
  \<open>rand_u1\<close> and \<open>rand_u2\<close> are the two \<^verbatim>\<open>rand(n)\<close> of the circular arena, \<open>normal_nd\<close>
  is the \<^verbatim>\<open>multivariate_normal\<close> sample of \<open>n\<close> rows.\<close>

record rand_src =
  rand_nd :: "real list list"
  rand_u1 :: "real list"
  rand_u2 :: "real list"
  normal_nd :: "real list list"

text \<open>A numpy array is two-dimensional, with its number of columns, or of another
  rank.\<close>

datatype ndarray = Arr2 nat "real list list" | ArrOther

definition random_ptype :: "pyval \<Rightarrow> bool" where
  "random_ptype ptype = (ptype = PyNone \<or> ptype = PyStr ''random'' \<or> ptype = PyStr ''shuffle'')"

text \<open>\<^verbatim>\<open>pos = rand(n, dimension) - 1/2\<close>, then every column \<open>d\<close> is scaled by
  \<^verbatim>\<open>arena_shape[d]\<close>.\<close>

definition scaled_uniform :: "rand_src \<Rightarrow> geometry \<Rightarrow> error + ndarray" where
  "scaled_uniform rnd g =
     (if length (arena_shape g) < dimension g then Inl IndexError
      else Inr (Arr2 (dimension g)
                  (map (\<lambda>row. map2 (\<lambda>u s. (u - 1 / 2) * s) row (arena_shape g)) (rand_nd rnd))))"

text \<open>\<^verbatim>\<open>Geometry.set_initial_positions(ptype, n)\<close>: \<^verbatim>\<open>pos\<close> is bound on the random
  branch of a known arena only.\<close>

definition set_initial_positions :: "rand_src \<Rightarrow> geometry \<Rightarrow> pyval \<Rightarrow> nat \<Rightarrow> error + ndarray" where
  "set_initial_positions rnd g ptype n =
     (if random_ptype ptype then
        (if arena g = ''rectangular'' then scaled_uniform rnd g
         else if arena g = ''circular'' then
           (if dimension g = 2 then
              bindE (get1 (arena_shape g) 0) (\<lambda>s0.
              Inr (Arr2 2 (map2 (\<lambda>u1 u2. [sqrt u2 * cos (2 * pi * u1) * s0 / 2,
                                            sqrt u2 * sin (2 * pi * u1) * s0 / 2])
                             (rand_u1 rnd) (rand_u2 rnd))))
            else scaled_uniform rnd g)
         else Inl UnboundLocalError)
      else Inl UnboundLocalError)"

text \<open>\<^verbatim>\<open>Geometry.set_initial_velocities(ptype, n, speeds)\<close>: each normal draw is scaled to
  the agent's speed. \<open>speeds\<close> is the speed vector, or the exception that indexing it
  as an array raises. The product broadcasts the \<open>k\<close> speeds against the \<open>n\<close> draws:
  it needs \<open>k = n\<close>, \<open>k = 1\<close> or \<open>n = 1\<close>. A draw of norm zero makes numpy store a nan.\<close>

definition set_initial_velocities ::
  "rand_src \<Rightarrow> geometry \<Rightarrow> pyval \<Rightarrow> nat \<Rightarrow> error + real list \<Rightarrow> error + ndarray" where
  "set_initial_velocities rnd g ptype n speeds =
     (if random_ptype ptype then
        bindE speeds (\<lambda>sv.
        let k = length sv;
            sv' = (if k = 1 then replicate n (hd sv) else sv);
            tmp = (if n = 1 \<and> k \<noteq> 1 then replicate k (hd (normal_nd rnd)) else normal_nd rnd)
        in if k \<noteq> n \<and> k \<noteq> 1 \<and> n \<noteq> 1 then Inl ValueError
           else if list_ex (\<lambda>t. sum_list (map (\<lambda>x. x ^ 2) t) = 0) tmp then Inl NotANumber
           else Inr (Arr2 (dimension g)
                       (map2 (\<lambda>sp t. map (\<lambda>x. sp * x / sqrt (sum_list (map (\<lambda>x. x ^ 2) t))) t)
                          sv' tmp)))
      else Inl UnboundLocalError)"

text \<open>\<^verbatim>\<open>d[k]\<close> on a value: a dictionary raises \<^verbatim>\<open>KeyError\<close> for a missing key, any
  other value here cannot be indexed by a string.\<close>

definition item :: "pyval \<Rightarrow> string \<Rightarrow> error + pyval" where
  "item d k =
     (case d of
        PyDict kvs \<Rightarrow> (case map_of kvs k of None \<Rightarrow> Inl KeyError | Some v \<Rightarrow> Inr v)
      | _ \<Rightarrow> Inl TypeError)"

text \<open>\<^verbatim>\<open>type(x) in [type(None), str]\<close>.\<close>

definition none_or_str :: "pyval \<Rightarrow> bool" where
  "none_or_str x = (case x of PyNone \<Rightarrow> True | PyStr _ \<Rightarrow> True | _ \<Rightarrow> False)"

text \<open>\<^verbatim>\<open>np.array(x)\<close> of a user value: a non-empty list of rows of one length is a
  matrix, a ragged one is refused, anything else is an array of another rank.\<close>

definition np_array :: "pyval \<Rightarrow> error + ndarray" where
  "np_array x =
     (case x of
        PyArr rows \<Rightarrow>
          (if rows = [] then Inr ArrOther
           else if list_all (\<lambda>r. length r = length (hd rows)) rows
             then Inr (Arr2 (length (hd rows)) rows)
           else Inl ValueError)
      | _ \<Rightarrow> Inr ArrOther)"

text \<open>\<^verbatim>\<open>np.concatenate((a, b), axis=0)\<close> where \<open>a\<close> has \<open>d\<close> columns.\<close>

definition concatenate :: "nat \<Rightarrow> real list list \<Rightarrow> ndarray \<Rightarrow> error + real list list" where
  "concatenate d a b =
     (case b of
        Arr2 c rows \<Rightarrow> (if c = d then Inr (a @ rows) else Inl ValueError)
      | ArrOther \<Rightarrow> Inl ValueError)"

text \<open>\<^verbatim>\<open>str.lower\<close> on ASCII, and \<^verbatim>\<open>list.index\<close>.\<close>

definition lower :: "string \<Rightarrow> string" where
  "lower s = map (\<lambda>c. if 65 \<le> (of_char c :: nat) \<and> (of_char c :: nat) \<le> 90
                       then char_of ((of_char c :: nat) + 32) else c) s"

fun index_of :: "'a list \<Rightarrow> 'a \<Rightarrow> error + nat" where
  "index_of [] x = Inl ValueError"
| "index_of (y # ys) x = (if y = x then Inr 0 else bindE (index_of ys x) (\<lambda>k. Inr (Suc k)))"

text \<open>The speed vector of line 203, as \<^verbatim>\<open>set_initial_velocities\<close> can use it: a number
  is repeated \<open>N\<close> times, a vector is taken as it is, any other value fails when it is
  indexed there.\<close>

definition speed_vector :: "pyval \<Rightarrow> nat \<Rightarrow> error + real list" where
  "speed_vector x N =
     (case x of PyNum r \<Rightarrow> Inr (replicate N r) | PyVec xs \<Rightarrow> Inr xs | _ \<Rightarrow> Inl TypeError)"

text \<open>
  \<^verbatim>\<open>add_group(gtype, N, **kwargs)\<close>, lines 179-239. The engine is changed in place from
  line 218 on, so an exception after that line leaves a partly extended engine; the
  result carries the engine as the exception finds it.
\<close>

definition add_group ::
  "rand_src \<Rightarrow> string \<Rightarrow> nat \<Rightarrow> (string \<rightharpoonup> pyval) \<Rightarrow> 'r engine \<Rightarrow> error option \<times> 'r engine" where
  "add_group rnd gtype N kwargs e =
     (let gname = (case kwargs ''name'' of Some x \<Rightarrow> x | None \<Rightarrow> PyStr gtype);
          d = dimension (geom e) in
      raising (if kwargs ''initial_condition'' \<noteq> None
               then (case kwargs ''IC'' of None \<Rightarrow> Inl KeyError | Some x \<Rightarrow> Inr x)
               else Inr (PyDict [(''position'', PyNone), (''velocity'', PyNone),
                                 (''speed'', PyNum (1 / 100))])) e (\<lambda>initial_condition.
      raising (item initial_condition ''position'') e (\<lambda>p.
      raising (if none_or_str p then set_initial_positions rnd (geom e) p N
               else np_array p) e (\<lambda>pos_new.
      raising (item initial_condition ''speed'') e (\<lambda>sp.
      raising (item initial_condition ''velocity'') e (\<lambda>v.
      raising (if none_or_str v
               then set_initial_velocities rnd (geom e) v N (speed_vector sp N)
               else np_array v) e (\<lambda>vel_new.
      let noise_new = replicate N [0, 1 / 10];
          a1 = (agents e)\<lparr>N_agents := N_agents (agents e) + N\<rparr> in
      raising (index_of atypes (lower gtype)) (e\<lparr>agents := a1\<rparr>) (\<lambda>t.
      let a2 = a1\<lparr>atype := atype a1 @ replicate N t\<rparr> in
      raising (concatenate d (pos a2) pos_new) (e\<lparr>agents := a2\<rparr>) (\<lambda>pos'.
      let a3 = a2\<lparr>pos := pos'\<rparr> in
      raising (concatenate d (vel a3) vel_new) (e\<lparr>agents := a3\<rparr>) (\<lambda>vel'.
      let a4 = a3\<lparr>vel := vel'\<rparr> in
      raising (concatenate d (noise a4) (Arr2 2 noise_new)) (e\<lparr>agents := a4\<rparr>) (\<lambda>noise'.
      let a5 = a4\<lparr>noise := noise'\<rparr> in
      raising (if gname \<in> set (group_names a5)
               then bindE (index_of (group_names a5) gname) (\<lambda>k. Inr (k, a5))
               else Inr (length (group_names a5),
                         a5\<lparr>group_names := group_names a5 @ [gname],
                            N_groups := N_groups a5 + 1\<rparr>)) (e\<lparr>agents := a5\<rparr>) (\<lambda>(iname, a6).
      (None, e\<lparr>agents := a6\<lparr>group_col := group_col a6 @ replicate N iname\<rparr>\<rparr>)))))))))))))"

section \<open>\<^verbatim>\<open>Engine.step\<close> and \<^verbatim>\<open>Engine.run\<close>\<close>

text \<open>
  \<^verbatim>\<open>step(i)\<close>, lines 276-296. For odd \<open>i\<close> the kernel reads \<^verbatim>\<open>cuda.p0, cuda.v0\<close> and
  writes \<^verbatim>\<open>cuda.p1, cuda.v1\<close>; for even \<open>i\<close>, zero included, it reads
  \<^verbatim>\<open>cuda.p1, cuda.v1\<close> and writes \<^verbatim>\<open>cuda.p0, cuda.v0\<close>. The written pair is then
  copied to \<^verbatim>\<open>agents.pos\<close>, \<^verbatim>\<open>agents.vel\<close>.
\<close>

definition step :: "'r rng_lib \<Rightarrow> nat \<Rightarrow> 'r engine \<Rightarrow> error option \<times> 'r engine" where
  "step lib i e =
     (case cuda e of
        None \<Rightarrow> (Some TypeError, e)
      | Some c \<Rightarrow>
         (case param c of
            None \<Rightarrow> (Some TypeError, e)
          | Some prm \<Rightarrow>
             if i mod 2 \<noteq> 0 then
               (case CUDA_step (normal_float32 lib) (gridDim c) (blockDim c) i (atype_dev c)
                       (p0 c) (v0 c) (p1 c) (v1 c) (noise_dev c) (group_dev c) prm (rng c) of
                  (Some err, (p1', v1', rng')) \<Rightarrow>
                    (Some err, e\<lparr>cuda := Some (c\<lparr>p1 := p1', v1 := v1', rng := rng'\<rparr>)\<rparr>)
                | (None, (p1', v1', rng')) \<Rightarrow>
                    (None, e\<lparr>cuda := Some (c\<lparr>p1 := p1', v1 := v1', rng := rng'\<rparr>),
                             agents := (agents e)\<lparr>pos := p1', vel := v1'\<rparr>\<rparr>))
             else
               (case CUDA_step (normal_float32 lib) (gridDim c) (blockDim c) i (atype_dev c)
                       (p1 c) (v1 c) (p0 c) (v0 c) (noise_dev c) (group_dev c) prm (rng c) of
                  (Some err, (p0', v0', rng')) \<Rightarrow>
                    (Some err, e\<lparr>cuda := Some (c\<lparr>p0 := p0', v0 := v0', rng := rng'\<rparr>)\<rparr>)
                | (None, (p0', v0', rng')) \<Rightarrow>
                    (None, e\<lparr>cuda := Some (c\<lparr>p0 := p0', v0 := v0', rng := rng'\<rparr>),
                             agents := (agents e)\<lparr>pos := p0', vel := v0'\<rparr>\<rparr>))))"

text \<open>\<^verbatim>\<open>self.geom.periodic if self.geom.arena=='circular' else self.geom.periodic[k]\<close>,
  stored into a \<^verbatim>\<open>float32\<close> slot.\<close>

definition periodic_flag :: "geometry \<Rightarrow> nat \<Rightarrow> error + real" where
  "periodic_flag g k =
     (case periodic g of
        None \<Rightarrow> Inl AttributeError
      | Some p \<Rightarrow>
         if arena g = ''circular'' then
           (case p of PBool b \<Rightarrow> Inr (if b then 1 else 0) | PList bs \<Rightarrow> Inl ValueError)
         else
           (case p of
              PBool b \<Rightarrow> Inl TypeError
            | PList bs \<Rightarrow> bindE (get1 bs k) (\<lambda>b. Inr (if b then 1 else 0))))"

text \<open>Parameter serialization, lines 333-380. The \<^verbatim>\<open>match\<close> has the cases 1, 2 and 3
  only: for any other dimension \<^verbatim>\<open>param\<close> is unbound when line 380 reads it.\<close>

definition serialize_param :: "geometry \<Rightarrow> error + real list" where
  "serialize_param g =
     (let a = (if arena g = ''circular'' then 0 else 1) in
      if dimension g = 1 then
        bindE (get1 (arena_shape g) 0) (\<lambda>s0.
        bindE (periodic_flag g 0) (\<lambda>q0.
        Inr [a, s0 / 2, q0]))
      else if dimension g = 2 then
        bindE (get1 (arena_shape g) 0) (\<lambda>s0.
        bindE (get1 (arena_shape g) 1) (\<lambda>s1.
        bindE (periodic_flag g 0) (\<lambda>q0.
        bindE (periodic_flag g 1) (\<lambda>q1.
        Inr [a, s0 / 2, s1 / 2, q0, q1]))))
      else if dimension g = 3 then
        bindE (get1 (arena_shape g) 0) (\<lambda>s0.
        bindE (get1 (arena_shape g) 1) (\<lambda>s1.
        bindE (get1 (arena_shape g) 2) (\<lambda>s2.
        bindE (periodic_flag g 0) (\<lambda>q0.
        bindE (periodic_flag g 1) (\<lambda>q1.
        bindE (periodic_flag g 2) (\<lambda>q2.
        Inr [a, s0 / 2, s1 / 2, s2 / 2, q0, q1, q2]))))))
      else Inl UnboundLocalError)"

text \<open>\<^verbatim>\<open>cuda.device_array((n, d), np.float32)\<close> allocates and does not initialise: the
  array holds whatever the memory held, here the parameter \<open>junk\<close>.\<close>

definition device_array :: "(nat \<Rightarrow> nat \<Rightarrow> real) \<Rightarrow> nat \<Rightarrow> nat \<Rightarrow> real list list" where
  "device_array junk n d = map (\<lambda>i. map (junk i) [0..<d]) [0..<n]"

text \<open>The CUDA preparation and the parameter serialization of \<^verbatim>\<open>run\<close>, lines 311-380;
  the generator is seeded with the constant 0.\<close>

definition run_setup ::
  "'r rng_lib \<Rightarrow> (nat \<Rightarrow> nat \<Rightarrow> real) \<Rightarrow> (nat \<Rightarrow> nat \<Rightarrow> real) \<Rightarrow> 'r engine
     \<Rightarrow> error option \<times> 'r engine" where
  "run_setup lib junk_p junk_v e =
     (let a = agents e;
          block = 32;
          grid = (N_agents a + (block - 1)) div block;
          c = \<lparr>blockDim = block, gridDim = grid, param = None,
               p0 = pos a, v0 = vel a,
               p1 = device_array junk_p (N_agents a) (dimension (geom e)),
               v1 = device_array junk_v (N_agents a) (dimension (geom e)),
               atype_dev = map real (atype a),
               noise_dev = noise a,
               group_dev = map real (group_col a),
               rng = map (init_state lib 0) [0..<block * grid]\<rparr>;
          e1 = e\<lparr>cuda := Some c\<rparr>
      in raising (serialize_param (geom e)) e1 (\<lambda>prm.
           (None, e1\<lparr>cuda := Some (c\<lparr>param := Some prm\<rparr>)\<rparr>)))"

text \<open>The main loop, lines 384-388: \<^verbatim>\<open>step(i)\<close> for \<open>i = 0, 1, ...\<close> below \<^verbatim>\<open>steps\<close>.\<close>

fun main_loop :: "'r rng_lib \<Rightarrow> nat list \<Rightarrow> 'r engine \<Rightarrow> error option \<times> 'r engine" where
  "main_loop lib [] e = (None, e)"
| "main_loop lib (i # is) e =
     (case step lib i e of
        (Some err, e') \<Rightarrow> (Some err, e')
      | (None, e') \<Rightarrow> main_loop lib is e')"

definition run ::
  "'r rng_lib \<Rightarrow> (nat \<Rightarrow> nat \<Rightarrow> real) \<Rightarrow> (nat \<Rightarrow> nat \<Rightarrow> real) \<Rightarrow> 'r engine
     \<Rightarrow> error option \<times> 'r engine" where
  "run lib junk_p junk_v e =
     (case run_setup lib junk_p junk_v e of
        (Some err, e') \<Rightarrow> (Some err, e')
      | (None, e') \<Rightarrow> main_loop lib [0..<steps e'] e')"

section \<open>Engines used in the closed instances\<close>

text \<open>The engine that \<^verbatim>\<open>Engine(2)\<close> followed by one \<^verbatim>\<open>add_group('blind', 1, ...)\<close> or
  \<^verbatim>\<open>add_group('fixed', 1, ...)\<close> with an explicit initial position and velocity builds:
  rectangular arena of shape \<open>[1, 1]\<close>, periodic on both axes, one agent.\<close>

definition one_agent :: "nat \<Rightarrow> string \<Rightarrow> real \<Rightarrow> real \<Rightarrow> real \<Rightarrow> real \<Rightarrow> 'r engine" where
  "one_agent t name x y vx vy =
     \<lparr>geom = Geometry_init 2 None None None,
      agents = \<lparr>N_agents = 1, atype = [t], pos = [[x, y]], vel = [[vx, vy]],
                noise = [[0, 1 / 10]], N_groups = 1, group_names = [PyStr name],
                group_col = [0]\<rparr>,
      cuda = None, steps = 1\<rparr>"

text \<open>A generator whose every draw is 0, and fresh memory that holds one value \<open>q\<close>
  everywhere: they instantiate the generator and the unwritten memory in closed
  instances.\<close>

definition zero_lib :: "unit rng_lib" where
  "zero_lib = \<lparr>init_state = (\<lambda>seed i. ()), normal_float32 = (\<lambda>s. (0, ()))\<rparr>"

definition const_mem :: "real \<Rightarrow> nat \<Rightarrow> nat \<Rightarrow> real" where
  "const_mem q i j = q"

text \<open>Scenario A of the specification: one Blind agent at \<open>(0.999, 0)\<close> with velocity
  \<open>(0.01, 0)\<close> and noise coefficients zero, in the rectangular arena of shape \<open>[2, 2]\<close>
  (half-extents 1 and 1), periodic in X and reflective in Y.\<close>

definition scenario_A :: "'r engine" where
  "scenario_A =
     \<lparr>geom = Geometry_init 2 (Some ''rectangular'') (Some [2, 2]) (Some (PList [True, False])),
      agents = \<lparr>N_agents = 1, atype = [1], pos = [[999 / 1000, 0]], vel = [[1 / 100, 0]],
                noise = [[0, 0]], N_groups = 1, group_names = [PyStr ''blind''],
                group_col = [0]\<rparr>,
      cuda = None, steps = 1\<rparr>"

section \<open>Boundary resolution: properties of \<^verbatim>\<open>assign_2d\<close>\<close>

lemma cmod_rect: "cmod (rect r phi) = \<bar>r\<bar>"
  by (simp add: rect_def norm_mult)

lemma phase_rect: "0 < r \<Longrightarrow> cis (phase (rect r phi)) = cis phi"
  by (simp add: phase_def rect_def cis_Arg sgn_mult sgn_of_real flip: of_real_def)

lemma rect_shift: "rect r (a + b) = complex_of_real r * cis a * cis b"
  by (simp add: rect_def cis_mult)

text \<open>
  Claim C4. In a rectangular arena (\<^verbatim>\<open>arena == 1\<close>) with half-extents \<open>RX\<close>, \<open>RY\<close>,
  \<^verbatim>\<open>assign_2d\<close> always returns, and on each axis whose periodic flag is 0: a candidate
  coordinate \<open>R + d\<close> with \<open>d > 0\<close> is resolved to \<open>R - d\<close> with the velocity component
  negated; a candidate \<open>- R - d\<close> is resolved to \<open>- R + d\<close> with the velocity component
  negated; a candidate inside \<open>[- R, R]\<close> keeps coordinate and velocity component. The
  magnitude of the velocity component is preserved in every case.
\<close>

theorem rectangular_reflective_bounce:
  assumes "0 \<le> RX" "0 \<le> RY" "0 < d"
  shows "\<exists>px py vx vy.
           assign_2d z0 z1 zv 1 RX RY pX pY = Inr (px, py, vx, vy)
         \<and> (pX = 0 \<longrightarrow>
               (Re z1 = RX + d \<longrightarrow> px = RX - d \<and> vx = - Re zv)
             \<and> (Re z1 = - RX - d \<longrightarrow> px = - RX + d \<and> vx = - Re zv)
             \<and> (- RX \<le> Re z1 \<and> Re z1 \<le> RX \<longrightarrow> px = Re z1 \<and> vx = Re zv)
             \<and> \<bar>vx\<bar> = \<bar>Re zv\<bar>)
         \<and> (pY = 0 \<longrightarrow>
               (Im z1 = RY + d \<longrightarrow> py = RY - d \<and> vy = - Im zv)
             \<and> (Im z1 = - RY - d \<longrightarrow> py = - RY + d \<and> vy = - Im zv)
             \<and> (- RY \<le> Im z1 \<and> Im z1 \<le> RY \<longrightarrow> py = Im z1 \<and> vy = Im zv)
             \<and> \<bar>vy\<bar> = \<bar>Im zv\<bar>)"
  using assms by (auto simp add: assign_2d_def Let_def split_beta)

theorem rectangular_reflective_bounce_witness:
  "(0::real) \<le> 1 \<and> (0::real) < 1 / 2
   \<and> assign_2d 0 (Complex (3 / 2) (- 3 / 2)) (Complex (1 / 2) (- 1 / 2)) 1 1 1 0 0
       = Inr (1 / 2, - 1 / 2, - 1 / 2, 1 / 2)"
  using rectangular_reflective_bounce
    [of 1 1 "1 / 2" 0 "Complex (3 / 2) (- 3 / 2)" "Complex (1 / 2) (- 1 / 2)" 0 0]
  by auto

lemma cis_eq_mod:
  assumes "cis a = cis b"
  shows "\<exists>k::int. a = b + 2 * pi * of_int k"
proof -
  have "cis (a - b) = 1" using assms by (simp add: cis_divide [symmetric])
  then have "cos (a - b) = 1" by (simp add: complex_eq_iff)
  then obtain n :: int where "a - b = of_int n * 2 * pi" by (auto simp: cos_one_2pi_int)
  then have "a = b + 2 * pi * of_int n" by (simp add: algebra_simps)
  then show ?thesis ..
qed

lemma phase_one: "phase 1 = 0"
  unfolding phase_def by (rule cis_Arg_unique) simp_all

text \<open>
  Claim C5, as stated, fails when the overshoot exceeds the radius. In the periodic
  circular arena of radius 1, the candidate of radius \<open>1 + 2\<close> and phase 0 is resolved by
  \<^verbatim>\<open>cmath.rect\<close> with the negative radius \<open>- 1\<close> at phase \<open>pi\<close>: the point \<open>(1, 0)\<close>, whose
  radius is 1, not \<open>1 - 2\<close>, and whose phase is 0, not \<open>pi\<close> modulo \<open>2 pi\<close>.
\<close>

theorem circular_periodic_wrap_far_overshoot:
  "cmod (rect (1 + 2) 0) = 1 + 2
   \<and> phase (rect (1 + 2) 0) = 0
   \<and> assign_2d 0 (rect (1 + 2) 0) 1 0 1 1 1 1 = Inr (1, 0, 1, 0)
   \<and> cmod (Complex 1 0) \<noteq> 1 - 2
   \<and> phase (Complex 1 0) = 0
   \<and> cis (phase (Complex 1 0)) \<noteq> cis (0 + pi)"
proof -
  have r: "rect 3 0 = 3" by (simp add: rect_def)
  have p3: "phase 3 = 0" unfolding phase_def by (rule cis_Arg_unique) (simp_all add: sgn_eq)
  have c1: "Complex 1 0 = 1" by (simp add: complex_eq_iff)
  have a: "assign_2d 0 3 1 0 1 1 1 1 = Inr (1, 0, 1, 0)"
    by (simp add: assign_2d_def Let_def p3 rect_def)
  show ?thesis by (simp add: r p3 a c1 phase_one)
qed

text \<open>
  Claim C5, amended. In a circular arena (\<^verbatim>\<open>arena == 0\<close>) of radius \<open>R \<ge> 0\<close> with a
  periodic boundary, a candidate of radius \<open>R + d\<close>, \<open>d > 0\<close>, and phase \<open>phi\<close> is resolved
  to the point \<open>rect (R - d) (phi + pi)\<close>, with the velocity unchanged. For \<open>d \<le> R\<close> the
  radius of that point is \<open>R - d\<close> and, for \<open>d < R\<close>, its phase is \<open>phi + pi\<close> modulo
  \<open>2 pi\<close>; for \<open>d > R\<close> its radius is \<open>d - R\<close> and its phase is \<open>phi\<close> modulo \<open>2 pi\<close>. A
  candidate \<open>z1'\<close> of radius at most \<open>R\<close> is returned unchanged, with the velocity
  unchanged.
\<close>

theorem circular_periodic_wrap:
  assumes "pX \<noteq> 0" "0 \<le> R" "0 < d"
  shows "\<exists>px py.
           assign_2d z0 (rect (R + d) phi) zv 0 R RY pX pY = Inr (px, py, Re zv, Im zv)
         \<and> Complex px py = rect (R - d) (phi + pi)
         \<and> (d \<le> R \<longrightarrow> cmod (Complex px py) = R - d)
         \<and> (d < R \<longrightarrow> (\<exists>k::int. phase (Complex px py) = phi + pi + 2 * pi * of_int k))
         \<and> (R < d \<longrightarrow> cmod (Complex px py) = d - R
                      \<and> (\<exists>k::int. phase (Complex px py) = phi + 2 * pi * of_int k))
         \<and> (cmod z1' \<le> R \<longrightarrow>
              assign_2d z0 z1' zv 0 R RY pX pY = Inr (Re z1', Im z1', Re zv, Im zv))"
proof -
  let ?w = "rect (R - d) (phi + pi)"
  have pos: "0 < R + d" using assms by simp
  have "rect (2 * R - cmod (rect (R + d) phi)) (phase (rect (R + d) phi) + pi) = ?w"
    using pos by (simp add: cmod_rect rect_shift phase_rect)
  moreover have "cmod (rect (R + d) phi) > R" using assms by (simp add: cmod_rect)
  ultimately have a: "assign_2d z0 (rect (R + d) phi) zv 0 R RY pX pY
                        = Inr (Re ?w, Im ?w, Re zv, Im zv)"
    using assms by (simp add: assign_2d_def Let_def)
  have e: "Complex (Re ?w) (Im ?w) = ?w" by (rule complex_surj)
  have m1: "d \<le> R \<longrightarrow> cmod ?w = R - d" by (simp add: cmod_rect)
  have p1: "d < R \<longrightarrow> (\<exists>k::int. phase ?w = phi + pi + 2 * pi * of_int k)"
  proof
    assume "d < R"
    then have "cis (phase ?w) = cis (phi + pi)" by (simp add: phase_rect)
    then show "\<exists>k::int. phase ?w = phi + pi + 2 * pi * of_int k" by (rule cis_eq_mod)
  qed
  have flip: "?w = rect (d - R) phi"
    by (simp add: rect_def cis_mult [symmetric] algebra_simps)
  have m2: "R < d \<longrightarrow> cmod ?w = d - R \<and> (\<exists>k::int. phase ?w = phi + 2 * pi * of_int k)"
  proof (intro impI conjI)
    assume "R < d"
    then show "cmod ?w = d - R" by (simp add: flip cmod_rect)
  next
    assume "R < d"
    then have "cis (phase (rect (d - R) phi)) = cis phi" by (simp add: phase_rect)
    then have "cis (phase ?w) = cis phi" by (simp only: flip)
    then show "\<exists>k::int. phase ?w = phi + 2 * pi * of_int k" by (rule cis_eq_mod)
  qed
  have u: "cmod z1' \<le> R \<longrightarrow>
              assign_2d z0 z1' zv 0 R RY pX pY = Inr (Re z1', Im z1', Re zv, Im zv)"
    by (simp add: assign_2d_def)
  show ?thesis
    apply (rule exI [of _ "Re ?w"])
    apply (rule exI [of _ "Im ?w"])
    apply (simp only: e)
    apply (intro conjI a refl m1 p1 m2 u)
    done
qed

theorem circular_periodic_wrap_witness:
  "(1::real) \<noteq> 0 \<and> (0::real) \<le> 1 \<and> (0::real) < 1 / 2 \<and> (1 / 2 :: real) < 1 \<and> (1::real) < 2
   \<and> assign_2d 0 (rect (1 + 1 / 2) 0) 1 0 1 1 1 1 = Inr (- 1 / 2, 0, 1, 0)
   \<and> cmod (Complex (- 1 / 2) 0) = 1 - 1 / 2
   \<and> (\<exists>k::int. phase (Complex (- 1 / 2) 0) = 0 + pi + 2 * pi * of_int k)
   \<and> assign_2d 0 (1 / 2) 1 0 1 1 1 1 = Inr (1 / 2, 0, 1, 0)
   \<and> assign_2d 0 (rect (1 + 2) 0) 1 0 1 1 1 1 = Inr (1, 0, 1, 0)
   \<and> cmod (Complex 1 0) = 2 - 1
   \<and> (\<exists>k::int. phase (Complex 1 0) = 0 + 2 * pi * of_int k)"
proof -
  have w1: "rect (1 - 1 / 2) (0 + pi) = Complex (- 1 / 2) 0"
    by (simp add: rect_def complex_eq_iff)
  have w2: "rect (1 - 2) (0 + pi) = Complex 1 0"
    by (simp add: rect_def complex_eq_iff)
  from circular_periodic_wrap [of 1 1 "1 / 2" 0 0 1 1 1 "1 / 2"]
  obtain px py where h1:
      "assign_2d 0 (rect (1 + 1 / 2) 0) 1 0 1 1 1 1 = Inr (px, py, Re 1, Im 1)"
      "Complex px py = rect (1 - 1 / 2) (0 + pi)"
      "cmod (Complex px py) = 1 - 1 / 2"
      "\<exists>k::int. phase (Complex px py) = 0 + pi + 2 * pi * of_int k"
      "assign_2d 0 (1 / 2) 1 0 1 1 1 1 = Inr (Re (1 / 2), Im (1 / 2), Re 1, Im 1)"
    by (auto simp add: norm_divide)
  from circular_periodic_wrap [of 1 1 2 0 0 1 1 1 "1 / 2"]
  obtain qx qy where h2:
      "assign_2d 0 (rect (1 + 2) 0) 1 0 1 1 1 1 = Inr (qx, qy, Re 1, Im 1)"
      "Complex qx qy = rect (1 - 2) (0 + pi)"
      "cmod (Complex qx qy) = 2 - 1"
      "\<exists>k::int. phase (Complex qx qy) = 0 + 2 * pi * of_int k"
    by auto
  from h1(2) w1 have p: "px = - 1 / 2" "py = 0" by simp_all
  from h2(2) w2 have q: "qx = 1" "qy = 0" by simp_all
  show ?thesis using h1 h2 unfolding p q by simp
qed







section \<open>The kernel on one lane\<close>

lemma lane_indices: "filter (\<lambda>i. i < n) [0..<m] = [0..<min m n]"
proof (induction m)
  case 0
  show ?case by simp
next
  case (Suc m)
  show ?case
  proof (cases "m < n")
    case True
    with Suc show ?thesis by (simp add: min_def)
  next
    case False
    with Suc show ?thesis by (simp add: min_def)
  qed
qed

lemma single_lane: "filter (\<lambda>i. i = 0) [0..<32] = [0::nat]"
  using lane_indices [of 1 32] by simp

lemma upt_0_2: "[0..<2] = [0::nat, 1]"
  by (simp add: upt_rec)

lemma upt_0_3: "[0..<3] = [0::nat, 1, 2]"
  by (simp add: upt_rec)

section \<open>Group creation\<close>

lemma lower_Blind: "lower ''Blind'' = ''blind''"
  by code_simp

text \<open>
  Claim C9. Whenever \<^verbatim>\<open>add_group\<close> returns, whatever the group type, the count, the
  keyword arguments and the random draws, the noise array is the old one followed by
  \<open>N\<close> rows \<open>[0, 0.1]\<close>: speed-noise coefficient 0 and angular-noise coefficient 0.1 for
  every new agent. No argument of the call reaches these rows.
\<close>

theorem add_group_noise:
  assumes "add_group rnd gtype N kwargs e = (None, e')"
  shows "noise (agents e') = noise (agents e) @ replicate N [0, 1 / 10]"
  using assms
  by (auto simp: add_group_def raising_def Let_def concatenate_def bindE_def
      split: sum.splits if_splits prod.splits)

theorem add_group_noise_witness:
  "add_group \<lparr>rand_nd = [[1 / 2, 1 / 2]], rand_u1 = [], rand_u2 = [], normal_nd = [[1, 0]]\<rparr>
      ''Blind'' 1 [''noise'' \<mapsto> PyNum 5]
      (Engine_init 2 None None None :: unit engine)
    = (None,
       \<lparr>geom = Geometry_init 2 None None None,
        agents = \<lparr>N_agents = 1, atype = [1], pos = [[0, 0]], vel = [[1 / 100, 0]],
                  noise = [[0, 1 / 10]], N_groups = 1, group_names = [PyStr ''Blind''],
                  group_col = [0]\<rparr>,
        cuda = None, steps = 1\<rparr>)
   \<and> noise (agents (\<lparr>geom = Geometry_init 2 None None None,
        agents = \<lparr>N_agents = 1, atype = [1], pos = [[0, 0]], vel = [[1 / 100, 0]],
                  noise = [[0, 1 / 10]], N_groups = 1, group_names = [PyStr ''Blind''],
                  group_col = [0]\<rparr>,
        cuda = None, steps = 1\<rparr> :: unit engine))
     = noise (agents (Engine_init 2 None None None :: unit engine)) @ replicate 1 [0, 1 / 10]"
proof -
  have h: "add_group \<lparr>rand_nd = [[1 / 2, 1 / 2]], rand_u1 = [], rand_u2 = [], normal_nd = [[1, 0]]\<rparr>
      ''Blind'' 1 [''noise'' \<mapsto> PyNum 5]
      (Engine_init 2 None None None :: unit engine)
    = (None,
       \<lparr>geom = Geometry_init 2 None None None,
        agents = \<lparr>N_agents = 1, atype = [1], pos = [[0, 0]], vel = [[1 / 100, 0]],
                  noise = [[0, 1 / 10]], N_groups = 1, group_names = [PyStr ''Blind''],
                  group_col = [0]\<rparr>,
        cuda = None, steps = 1\<rparr>)"
    by (simp add: add_group_def raising_def Let_def item_def none_or_str_def
        set_initial_positions_def random_ptype_def Geometry_init_def Engine_init_def
        Agents_init_def scaled_uniform_def set_initial_velocities_def speed_vector_def
        bindE_def atypes_def lower_Blind concatenate_def eval_nat_numeral)
  show ?thesis using h add_group_noise [OF h] by simp
qed

text \<open>
  Claim C10. A call of \<^verbatim>\<open>add_group\<close> with the keyword \<^verbatim>\<open>initial_condition\<close> and without
  the keyword \<^verbatim>\<open>IC\<close> raises \<^verbatim>\<open>KeyError\<close>, and the engine, its agents included, is
  exactly as before the call.
\<close>

theorem add_group_KeyError:
  assumes "kwargs ''initial_condition'' \<noteq> None" "kwargs ''IC'' = None"
  shows "add_group rnd gtype N kwargs e = (Some KeyError, e)"
  using assms by (simp add: add_group_def raising_def)

theorem add_group_KeyError_witness:
  "add_group \<lparr>rand_nd = [], rand_u1 = [], rand_u2 = [], normal_nd = []\<rparr> ''blind'' 3
      [''initial_condition'' \<mapsto>
         PyDict [(''position'', PyNone), (''velocity'', PyNone), (''speed'', PyNum 1)]]
      (Engine_init 2 None None None :: unit engine)
    = (Some KeyError, Engine_init 2 None None None)"
  using add_group_KeyError
    [of "[''initial_condition'' \<mapsto>
            PyDict [(''position'', PyNone), (''velocity'', PyNone), (''speed'', PyNum 1)]]"]
  by simp

section \<open>Buffers, fixed agents and the first step\<close>

lemma one_agent_sel:
  "steps (one_agent t name x y vx vy :: 'r engine) = 1"
  "cuda (one_agent t name x y vx vy :: 'r engine) = None"
  by (simp_all add: one_agent_def)

lemma add_group_one_agent:
  "add_group rnd ''blind'' 1
     [''initial_condition'' \<mapsto> PyNone,
      ''IC'' \<mapsto> PyDict [(''position'', PyArr [[x, y]]), (''velocity'', PyArr [[vx, vy]]),
                       (''speed'', PyNum s)]]
     (Engine_init 2 None None None)
   = (None, one_agent 1 ''blind'' x y vx vy)"
  by (simp add: add_group_def raising_def Let_def item_def none_or_str_def np_array_def
      Geometry_init_def Engine_init_def Agents_init_def bindE_def atypes_def lower_def
      concatenate_def one_agent_def)

lemma setup_one:
  "run_setup lib jp jv (one_agent t name x y vx vy) =
     (None, (one_agent t name x y vx vy)
        \<lparr>cuda := Some \<lparr>blockDim = 32, gridDim = 1, param = Some [1, 1 / 2, 1 / 2, 1, 1],
               p0 = [[x, y]], v0 = [[vx, vy]],
               p1 = [[jp 0 0, jp 0 1]], v1 = [[jv 0 0, jv 0 1]],
               atype_dev = [real t], noise_dev = [[0, 1 / 10]], group_dev = [0],
               rng = map (init_state lib 0) [0..<32]\<rparr>\<rparr>)"
  by (simp add: run_setup_def one_agent_def Geometry_init_def serialize_param_def
      periodic_flag_def bindE_def get1_def raising_def Let_def device_array_def upt_0_2)

lemma setup_scenario_A:
  "run_setup lib jp jv scenario_A =
     (None, scenario_A
        \<lparr>cuda := Some \<lparr>blockDim = 32, gridDim = 1, param = Some [1, 1, 1, 1, 0],
               p0 = [[999 / 1000, 0]], v0 = [[1 / 100, 0]],
               p1 = [[jp 0 0, jp 0 1]], v1 = [[jv 0 0, jv 0 1]],
               atype_dev = [1], noise_dev = [[0, 0]], group_dev = [0],
               rng = map (init_state lib 0) [0..<32]\<rparr>\<rparr>)"
  by (simp add: run_setup_def scenario_A_def Geometry_init_def serialize_param_def
      periodic_flag_def bindE_def get1_def raising_def Let_def device_array_def upt_0_2)

lemma lane_scenario_A:
  "CUDA_step normal (Suc 0) 32 k [1] [[999 / 1000, 0]] [[1 / 100, 0]] [[a, b]] [[c, d]]
        [[0, 0]] grp [1, 1, 1, 1, 0] (map f [0..<32])
     = (None, ([[- 991 / 1000, 0]], [[1 / 100, 0]], (map f [0..<32])[0 := snd (normal (f 0))]))"
  by (simp add: CUDA_step_def single_lane CUDA_step_lane_def raising_def deserialize_def
      get1_def get2_def set2_def assign_2d_def Let_def complex_eq_iff)

text \<open>
  The kernel and the boundary resolution compute scenario A on the buffers that hold
  its state: the parameters of the arena serialize to \<open>[1, 1, 1, 1, 0]\<close>; the candidate
  is \<open>(1.009, 0)\<close>; one launch of the kernel on source buffers that hold the scenario's
  state writes the position \<open>(- 0.991, 0)\<close> and the velocity \<open>(0.01, 0)\<close>, whatever the
  destination held and whatever the generator draws; and so does, after the setup of
  \<^verbatim>\<open>run\<close>, a \<^verbatim>\<open>step\<close> of odd index.
\<close>

lemma scenario_A_launch:
  "serialize_param (geom scenario_A) = Inr [1, 1, 1, 1, 0]
   \<and> Complex (999 / 1000) 0
       + Complex (1 / 100) 0 * exp (\<i> * complex_of_real (0 + 0 * fst (normal st)))
     = Complex (1009 / 1000) 0
   \<and> CUDA_step normal 1 32 k [1] [[999 / 1000, 0]] [[1 / 100, 0]] [[a, b]] [[c, d]]
        [[0, 0]] grp [1, 1, 1, 1, 0] [st]
     = (None, ([[- 991 / 1000, 0]], [[1 / 100, 0]], [snd (normal st)]))
   \<and> fst (step lib 1 (snd (run_setup lib jp jv scenario_A))) = None
   \<and> pos (agents (snd (step lib 1 (snd (run_setup lib jp jv scenario_A)))))
     = [[- 991 / 1000, 0]]
   \<and> vel (agents (snd (step lib 1 (snd (run_setup lib jp jv scenario_A)))))
     = [[1 / 100, 0]]"
proof -
  have s: "serialize_param (geom (scenario_A :: 'r engine)) = Inr [1, 1, 1, 1, 0]"
    by (simp add: scenario_A_def serialize_param_def Geometry_init_def periodic_flag_def
        bindE_def get1_def)
  have c: "Complex (999 / 1000) 0
       + Complex (1 / 100) 0 * exp (\<i> * complex_of_real (0 + 0 * fst (normal st)))
     = Complex (1009 / 1000) 0"
    by (simp add: complex_eq_iff)
  have k: "CUDA_step normal 1 32 k [1] [[999 / 1000, 0]] [[1 / 100, 0]] [[a, b]] [[c, d]]
        [[0, 0]] grp [1, 1, 1, 1, 0] [st]
     = (None, ([[- 991 / 1000, 0]], [[1 / 100, 0]], [snd (normal st)]))"
    by (simp add: CUDA_step_def single_lane CUDA_step_lane_def raising_def deserialize_def
        get1_def get2_def set2_def assign_2d_def Let_def complex_eq_iff)
  have e: "fst (step lib 1 (snd (run_setup lib jp jv scenario_A))) = None
   \<and> pos (agents (snd (step lib 1 (snd (run_setup lib jp jv scenario_A)))))
     = [[- 991 / 1000, 0]]
   \<and> vel (agents (snd (step lib 1 (snd (run_setup lib jp jv scenario_A)))))
     = [[1 / 100, 0]]"
    by (simp add: setup_scenario_A step_def lane_scenario_A)
  from s c k e show ?thesis by (intro conjI) simp_all
qed

lemma scenario_A_junk_lane:
  "CUDA_step normal (Suc 0) 32 k [1] [[2 / 5, 2 / 5]] [[0, 0]] [[a, b]] [[c, d]]
        [[0, 0]] grp [1, 1, 1, 1, 0] (map f [0..<32])
     = (None, ([[2 / 5, 2 / 5]], [[0, 0]], (map f [0..<32])[0 := snd (normal (f 0))]))"
  by (simp add: CUDA_step_def single_lane CUDA_step_lane_def raising_def deserialize_def
      get1_def get2_def set2_def assign_2d_def Let_def complex_eq_iff)

lemma scenario_A_sel:
  "steps (scenario_A :: 'r engine) = 1"
  by (simp add: scenario_A_def)

text \<open>
  Claim C7 fails on the code, by the first step of \<^verbatim>\<open>run\<close>. For the engine of scenario
  A with \<^verbatim>\<open>steps = 1\<close>, \<^verbatim>\<open>run\<close> performs the one step \<^verbatim>\<open>step(0)\<close>, whose even branch
  reads the buffers \<^verbatim>\<open>cuda.p1, cuda.v1\<close> that nothing wrote: when that memory holds
  \<open>2/5\<close> in the position buffer and \<open>0\<close> in the velocity buffer, the run raises nothing
  and publishes the position \<open>(2/5, 2/5)\<close> and the velocity \<open>(0, 0)\<close>, not the position
  \<open>(- 0.991, 0)\<close> and the velocity \<open>(0.01, 0)\<close> of the scenario.
\<close>

theorem scenario_A_run_reads_unwritten_buffer:
  "fst (run lib (const_mem (2 / 5)) (const_mem 0) scenario_A) = None
   \<and> pos (agents (snd (run lib (const_mem (2 / 5)) (const_mem 0) scenario_A)))
       = [[2 / 5, 2 / 5]]
   \<and> vel (agents (snd (run lib (const_mem (2 / 5)) (const_mem 0) scenario_A)))
       = [[0, 0]]
   \<and> pos (agents (snd (run lib (const_mem (2 / 5)) (const_mem 0) scenario_A)))
       \<noteq> [[- 991 / 1000, 0]]"
  by (simp add: run_def setup_scenario_A scenario_A_sel step_def scenario_A_junk_lane
      const_mem_def)

text \<open>A Blind agent read from a source row that holds position \<open>(q, q)\<close> inside the
  arena and velocity zero stays there, whatever the noise.\<close>

lemma blind_lane_still:
  assumes "- 1 / 2 \<le> q" "q \<le> 1 / 2"
  shows "CUDA_step normal (Suc 0) 32 k [1] [[q, q]] [[0, 0]] [[a, b]] [[c, d]]
           [[0, 1 / 10]] grp [1, 1 / 2, 1 / 2, 1, 1] (map f [0..<32])
         = (None, ([[q, q]], [[0, 0]], (map f [0..<32])[0 := snd (normal (f 0))]))"
  using assms
  by (simp add: CUDA_step_def single_lane CUDA_step_lane_def raising_def deserialize_def
      get1_def get2_def set2_def assign_2d_def Let_def complex_eq_iff)

lemma run_one_blind_pos:
  assumes "- 1 / 2 \<le> q" "q \<le> 1 / 2"
  shows "fst (run lib (const_mem q) (const_mem 0) (one_agent 1 ''blind'' x y vx vy)) = None"
    and "pos (agents (snd (run lib (const_mem q) (const_mem 0)
                             (one_agent 1 ''blind'' x y vx vy)))) = [[q, q]]"
    and "vel (agents (snd (run lib (const_mem q) (const_mem 0)
                             (one_agent 1 ''blind'' x y vx vy)))) = [[0, 0]]"
  using assms
  by (simp_all add: run_def setup_one one_agent_sel step_def blind_lane_still const_mem_def)

text \<open>
  Claim C1 fails on the code at the first step. \<^verbatim>\<open>run\<close> fills \<^verbatim>\<open>cuda.p0, cuda.v0\<close> with
  the agents' state and allocates \<^verbatim>\<open>cuda.p1, cuda.v1\<close> without initialising them;
  \<^verbatim>\<open>step(0)\<close> takes the even branch, which reads \<^verbatim>\<open>cuda.p1, cuda.v1\<close> and overwrites
  \<^verbatim>\<open>cuda.p0, cuda.v0\<close>. For one Blind agent with any initial position \<open>(x, y)\<close> and
  velocity \<open>(vx, vy)\<close>, when the fresh memory holds \<open>2/5\<close> in the position buffer and
  \<open>0\<close> in the velocity buffer: before the loop \<^verbatim>\<open>cuda.p1\<close> holds that memory, the run
  of one step raises nothing, and it publishes the position \<open>(2/5, 2/5)\<close> and the
  velocity \<open>(0, 0)\<close>: values computed from the unwritten buffer, the initial state is
  lost.
\<close>

theorem first_step_reads_unwritten_buffer:
  "map_option p1 (cuda (snd (run_setup lib (const_mem (2 / 5)) (const_mem 0)
                               (one_agent 1 ''blind'' x y vx vy))))
     = Some [[2 / 5, 2 / 5]]
   \<and> fst (run lib (const_mem (2 / 5)) (const_mem 0) (one_agent 1 ''blind'' x y vx vy)) = None
   \<and> pos (agents (snd (run lib (const_mem (2 / 5)) (const_mem 0)
                          (one_agent 1 ''blind'' x y vx vy))))
     = [[2 / 5, 2 / 5]]
   \<and> vel (agents (snd (run lib (const_mem (2 / 5)) (const_mem 0)
                          (one_agent 1 ''blind'' x y vx vy))))
     = [[0, 0]]"
  using run_one_blind_pos [of "2 / 5" lib x y vx vy]
  by (simp add: setup_one const_mem_def)

text \<open>
  Claim C2 fails on the code. For a Fixed agent (type 0) the kernel copies the position
  row and goes on: it never copies the velocity and does not end the lane. With
  two-dimensional buffers the lane reaches the update, where \<^verbatim>\<open>da\<close> is unbound for
  type 0: the destination position is the source's, the destination velocity is what
  the destination buffer held before, \<open>(c, d)\<close>, and the launch ends in
  \<^verbatim>\<open>UnboundLocalError\<close>. With three-dimensional buffers the lane ends normally, the
  position copied and the destination velocity again untouched.
\<close>

theorem fixed_agent_velocity_not_copied:
  "CUDA_step normal 1 32 k [0] [[3 / 10, 1 / 5]] [[1 / 100, 0]] [[a, b]] [[c, d]]
        [[0, 1 / 10]] grp [1, 1 / 2, 1 / 2, 1, 1] [st]
     = (Some UnboundLocalError, ([[3 / 10, 1 / 5]], [[c, d]], [snd (normal st)]))
   \<and> CUDA_step normal 1 32 k [0] [[x, y, z]] [[vx, vy, vz]] [[a1, a2, a3]] [[c1, c2, c3]]
        [[0, 1 / 10, 0]] grp [1, 1 / 2, 1 / 2, 1 / 2, 1, 1, 1] [st]
     = (None, ([[x, y, z]], [[c1, c2, c3]], [snd (normal st)]))"
  by (simp add: CUDA_step_def single_lane CUDA_step_lane_def raising_def deserialize_def
      get1_def get2_def set2_def Let_def upt_0_2 upt_0_3)

section \<open>The noise streams\<close>

lemma set2_length: "set2 a i j x = Inr a' \<Longrightarrow> length a' = length a"
  by (auto simp add: set2_def split: if_splits)

lemma copy_cells_length: "copy_cells js sp dp i = (r, dp') \<Longrightarrow> length dp' = length dp"
proof (induction js arbitrary: dp)
  case Nil
  then show ?case by simp
next
  case (Cons j js)
  then show ?case
    by (auto split: sum.splits dest: set2_length)
qed

lemma lane_rng:
  assumes "CUDA_step_lane normal i aty sp sv nz prm (dp, dv, g) = (None, (dp', dv', g'))"
  shows "i < length g \<and> g' = g[i := snd (normal (g ! i))]"
  using assms
  by (auto simp add: CUDA_step_lane_def raising_def Let_def get1_def
      split: sum.splits prod.splits if_splits option.splits)

lemma lane_length:
  assumes "CUDA_step_lane normal i aty sp sv nz prm (dp, dv, g) = (r, (dp', dv', g'))"
  shows "length dp' = length dp \<and> length dv' = length dv"
  using assms
  by (auto simp add: CUDA_step_lane_def raising_def Let_def
      split: sum.splits prod.splits if_splits option.splits
      dest!: set2_length copy_cells_length)

lemma lanes_length:
  "lanes normal js aty sp sv nz prm (dp, dv, g) = (r, (dp', dv', g'))
     \<Longrightarrow> length dp' = length dp \<and> length dv' = length dv"
proof (induction js arbitrary: dp dv g r dp' dv' g')
  case Nil
  then show ?case by simp
next
  case (Cons i js)
  obtain r1 dp1 dv1 g1
    where l: "CUDA_step_lane normal i aty sp sv nz prm (dp, dv, g) = (r1, (dp1, dv1, g1))"
    by (metis prod_cases4)
  obtain r2 dp2 dv2 g2
    where m: "lanes normal js aty sp sv nz prm (dp1, dv1, g1) = (r2, (dp2, dv2, g2))"
    by (metis prod_cases4)
  from Cons.prems l m have "dp' = dp2" "dv' = dv2" by simp_all
  with Cons.IH [OF m] lane_length [OF l] show ?case by simp
qed

lemma lanes_rng:
  "lanes normal js aty sp sv nz prm (dp, dv, g) = (None, (dp', dv', g')) \<Longrightarrow> distinct js
     \<Longrightarrow> length g' = length g
       \<and> (\<forall>j < length g. g' ! j = (if j \<in> set js then snd (normal (g ! j)) else g ! j))"
proof (induction js arbitrary: dp dv g)
  case Nil
  then show ?case by simp
next
  case (Cons i js)
  obtain r1 dp1 dv1 g1
    where l: "CUDA_step_lane normal i aty sp sv nz prm (dp, dv, g) = (r1, (dp1, dv1, g1))"
    by (metis prod_cases4)
  obtain r2 dp2 dv2 g2
    where m: "lanes normal js aty sp sv nz prm (dp1, dv1, g1) = (r2, (dp2, dv2, g2))"
    by (metis prod_cases4)
  from Cons.prems(1) l m have r1: "r1 = None" by (cases r1) simp_all
  with Cons.prems(1) l m have r2: "r2 = None" and eq: "dp2 = dp'" "dv2 = dv'" "g2 = g'"
    by simp_all
  from m r2 eq have rest: "lanes normal js aty sp sv nz prm (dp1, dv1, g1) = (None, (dp', dv', g'))"
    by simp
  from l r1 lane_rng have g1: "i < length g" "g1 = g[i := snd (normal (g ! i))]" by blast+
  from Cons.prems(2) have d: "distinct js" "i \<notin> set js" by simp_all
  from Cons.IH [OF rest d(1)] have ih: "length g' = length g1"
    "\<forall>j < length g1. g' ! j = (if j \<in> set js then snd (normal (g1 ! j)) else g1 ! j)"
    by simp_all
  show ?case
  proof (intro conjI allI impI)
    show "length g' = length g" using ih(1) g1 by simp
  next
    fix j assume "j < length g"
    then show "g' ! j = (if j \<in> set (i # js) then snd (normal (g ! j)) else g ! j)"
      using ih(2) g1 d(2) by (cases "j = i") auto
  qed
qed

lemma CUDA_step_rng:
  assumes "CUDA_step normal grid block k aty sp sv dp dv nz grp prm g = (None, (dp', dv', g'))"
  shows "length g' = length g \<and> length dp' = length dp \<and> length dv' = length dv
       \<and> (\<forall>j < length g. g' ! j = (if j < length sp \<and> j < grid * block
                                     then snd (normal (g ! j)) else g ! j))"
proof -
  let ?js = "filter (\<lambda>i. i < length sp) [0..<grid * block]"
  have l: "lanes normal ?js aty sp sv nz prm (dp, dv, g) = (None, (dp', dv', g'))"
    using assms by (simp add: CUDA_step_def)
  have "distinct ?js" by simp
  from lanes_rng [OF l this] lanes_length [OF l] show ?thesis by auto
qed


lemma step_rng:
  assumes "step lib i e = (None, e')" "cuda e = Some c" "length (p0 c) = n" "length (p1 c) = n"
  shows "\<exists>c'. cuda e' = Some c' \<and> length (p0 c') = n \<and> length (p1 c') = n
            \<and> gridDim c' = gridDim c \<and> blockDim c' = blockDim c
            \<and> length (rng c') = length (rng c)
            \<and> (\<forall>j < length (rng c).
                  rng c' ! j = (if j < n \<and> j < gridDim c * blockDim c
                               then next_state lib (rng c ! j) else rng c ! j))"
proof -
  from assms(1,2) obtain prm where prm: "param c = Some prm"
    by (auto simp add: step_def split: option.splits)
  show ?thesis
  proof (cases "i mod 2 \<noteq> 0")
    case True
    obtain r a b g where k: "CUDA_step (normal_float32 lib) (gridDim c) (blockDim c) i (atype_dev c)
        (p0 c) (v0 c) (p1 c) (v1 c) (noise_dev c) (group_dev c) prm (rng c) = (r, (a, b, g))"
      by (metis prod_cases4)
    from assms(1,2) prm True k have r: "r = None" by (cases r) (simp_all add: step_def)
    from assms(1,2) prm True k r
    have e': "e' = e\<lparr>cuda := Some (c\<lparr>p1 := a, v1 := b, rng := g\<rparr>),
                    agents := (agents e)\<lparr>pos := a, vel := b\<rparr>\<rparr>"
      by (simp add: step_def)
    from CUDA_step_rng [OF k [unfolded r]] assms(3,4) e' show ?thesis
      by (simp add: next_state_def)
  next
    case False
    obtain r a b g where k: "CUDA_step (normal_float32 lib) (gridDim c) (blockDim c) i (atype_dev c)
        (p1 c) (v1 c) (p0 c) (v0 c) (noise_dev c) (group_dev c) prm (rng c) = (r, (a, b, g))"
      by (metis prod_cases4)
    from assms(1,2) prm False k have r: "r = None" by (cases r) (simp_all add: step_def)
    from assms(1,2) prm False k r
    have e': "e' = e\<lparr>cuda := Some (c\<lparr>p0 := a, v0 := b, rng := g\<rparr>),
                    agents := (agents e)\<lparr>pos := a, vel := b\<rparr>\<rparr>"
      by (simp add: step_def)
    from CUDA_step_rng [OF k [unfolded r]] assms(3,4) e' show ?thesis
      by (simp add: next_state_def)
  qed
qed

lemma main_loop_rng:
  "main_loop lib js e = (None, e') \<Longrightarrow> cuda e = Some c
     \<Longrightarrow> length (p0 c) = n \<Longrightarrow> length (p1 c) = n
     \<Longrightarrow> \<exists>c'. cuda e' = Some c'
            \<and> (\<forall>j < length (rng c).
                  rng c' ! j = (if j < n \<and> j < gridDim c * blockDim c
                               then (next_state lib ^^ length js) (rng c ! j)
                               else rng c ! j))"
proof (induction js arbitrary: e c)
  case Nil
  then show ?case by simp
next
  case (Cons i js)
  obtain r e1 where s: "step lib i e = (r, e1)" by (cases "step lib i e")
  from Cons.prems(1) s have r: "r = None" by (cases r) simp_all
  with Cons.prems(1) s have rest: "main_loop lib js e1 = (None, e')" by simp
  from step_rng [OF s [unfolded r] Cons.prems(2,3,4)]
  obtain c1 where c1: "cuda e1 = Some c1" "length (p0 c1) = n" "length (p1 c1) = n"
      "gridDim c1 = gridDim c" "blockDim c1 = blockDim c" "length (rng c1) = length (rng c)"
      "\<forall>j < length (rng c).
          rng c1 ! j = (if j < n \<and> j < gridDim c * blockDim c
                        then next_state lib (rng c ! j) else rng c ! j)"
    by blast
  from Cons.IH [OF rest c1(1,2,3)]
  obtain c' where c': "cuda e' = Some c'"
      "\<forall>j < length (rng c1).
          rng c' ! j = (if j < n \<and> j < gridDim c1 * blockDim c1
                        then (next_state lib ^^ length js) (rng c1 ! j)
                        else rng c1 ! j)"
    by blast
  show ?case
  proof (intro exI conjI allI impI)
    show "cuda e' = Some c'" by (rule c'(1))
  next
    fix j assume j: "j < length (rng c)"
    show "rng c' ! j = (if j < n \<and> j < gridDim c * blockDim c
                         then (next_state lib ^^ length (i # js)) (rng c ! j)
                         else rng c ! j)"
      using j c'(2) c1 by (simp add: funpow_swap1)
  qed
qed

lemma lanes_cover: "(n::nat) \<le> 32 * ((n + 31) div 32)"
  by simp

text \<open>
  The noise streams are reproducible: when \<^verbatim>\<open>run\<close> returns, the generator state of
  every agent's lane \<open>j\<close> is the state \<open>init_state lib 0 j\<close>, made from the constant seed 0
  and the lane index, advanced by one draw per step. Positions, velocities, the
  unwritten memory and the other lanes do not enter: the samples of lane \<open>j\<close> are the
  same in every run.
\<close>

lemma run_noise_streams:
  assumes "run lib jp jv e = (None, e')" "length (pos (agents e)) = N_agents (agents e)"
  shows "\<exists>c'. cuda e' = Some c'
           \<and> (\<forall>j < N_agents (agents e).
                 rng c' ! j = (next_state lib ^^ steps e) (init_state lib 0 j))"
proof -
  obtain r e1 where s: "run_setup lib jp jv e = (r, e1)" by (cases "run_setup lib jp jv e")
  from assms(1) s have r: "r = None" by (cases r) (simp_all add: run_def)
  with assms(1) s have loop: "main_loop lib [0..<steps e1] e1 = (None, e')" by (simp add: run_def)
  from s r obtain c where c: "cuda e1 = Some c" "steps e1 = steps e"
      "p0 c = pos (agents e)" "length (p1 c) = N_agents (agents e)"
      "gridDim c = (N_agents (agents e) + 31) div 32" "blockDim c = 32"
      "rng c = map (init_state lib 0) [0..<32 * ((N_agents (agents e) + 31) div 32)]"
    by (auto simp add: run_setup_def raising_def Let_def device_array_def split: sum.splits)
  from main_loop_rng [OF loop c(1) _ c(4)] c(3) assms(2)
  obtain c' where c': "cuda e' = Some c'"
      "\<forall>j < length (rng c).
          rng c' ! j = (if j < N_agents (agents e) \<and> j < gridDim c * blockDim c
                        then (next_state lib ^^ length [0..<steps e1]) (rng c ! j)
                        else rng c ! j)"
    by auto
  show ?thesis
  proof (intro exI conjI allI impI)
    show "cuda e' = Some c'" by (rule c'(1))
  next
    fix j assume j: "j < N_agents (agents e)"
    with lanes_cover [of "N_agents (agents e)"]
    have j32: "j < 32 * ((N_agents (agents e) + 31) div 32)" by linarith
    then show "rng c' ! j = (next_state lib ^^ steps e) (init_state lib 0 j)"
      using c'(2) c j by (simp add: mult.commute)
  qed
qed

text \<open>
  Claim C8 fails on the code in its conclusion on trajectories. The noise streams are
  the same in every run (lemma \<open>run_noise_streams\<close>), but the first step reads the
  buffers that \<^verbatim>\<open>cuda.device_array\<close> allocated and nothing wrote: two runs of one step
  with the same generator and seed, the same agents and the same step count publish
  different positions, \<open>(2/5, 2/5)\<close> against \<open>(1/5, 1/5)\<close>, when that memory differs.
\<close>

theorem trajectory_depends_on_unwritten_memory:
  "pos (agents (snd (run lib (const_mem (2 / 5)) (const_mem 0)
                       (one_agent 1 ''blind'' x y vx vy))))
     \<noteq> pos (agents (snd (run lib (const_mem (1 / 5)) (const_mem 0)
                           (one_agent 1 ''blind'' x y vx vy))))"
  using run_one_blind_pos [of "2 / 5" lib x y vx vy] run_one_blind_pos [of "1 / 5" lib x y vx vy]
  by simp

section \<open>Dimensions other than two\<close>

lemma serialize_other:
  "dimension g \<noteq> 1 \<Longrightarrow> dimension g \<noteq> 2 \<Longrightarrow> dimension g \<noteq> 3
     \<Longrightarrow> serialize_param g = Inl UnboundLocalError"
  by (simp add: serialize_param_def)

lemma serialize_default_1:
  "a = None \<or> a = Some ''rectangular'' \<or> a = Some ''circular''
     \<Longrightarrow> \<exists>prm. serialize_param (Geometry_init 1 a None None) = Inr prm"
  by (auto simp add: serialize_param_def Geometry_init_def periodic_flag_def bindE_def get1_def)

lemma serialize_default_3:
  "a = None \<or> a = Some ''rectangular'' \<or> a = Some ''circular''
     \<Longrightarrow> \<exists>prm. serialize_param (Geometry_init 3 a None None) = Inr prm"
  by (auto simp add: serialize_param_def Geometry_init_def periodic_flag_def bindE_def get1_def
      eval_nat_numeral)

lemma run_setup_fst:
  "fst (run_setup lib jp jv e)
     = (case serialize_param (geom e) of Inl err \<Rightarrow> Some err | Inr prm \<Rightarrow> None)"
  by (simp add: run_setup_def raising_def Let_def split: sum.splits)

lemma lane_no_write:
  assumes "length (src_p ! i) \<noteq> 2" "get1 aty i \<noteq> Inr 0"
  shows "fst (snd (CUDA_step_lane normal i aty src_p src_v nz prm (dst_p, dst_v, g))) = dst_p
       \<and> fst (snd (snd (CUDA_step_lane normal i aty src_p src_v nz prm (dst_p, dst_v, g))))
           = dst_v"
  using assms
  by (auto simp add: CUDA_step_lane_def raising_def Let_def split: sum.splits)

text \<open>
  Claim C3, as stated, fails: the setup of \<^verbatim>\<open>run\<close> for the three-dimensional engine
  \<^verbatim>\<open>Engine(3)\<close> raises nothing.
\<close>

theorem setup_accepts_dimension_3:
  "fst (run_setup zero_lib (const_mem 0) (const_mem 0) (Engine_init 3 None None None)) = None"
  by (simp add: run_setup_fst Engine_init_def serialize_param_def Geometry_init_def
      periodic_flag_def bindE_def get1_def eval_nat_numeral)

text \<open>
  Claim C3, amended. The code has no configuration error. For an engine whose geometry
  is built with the default shape and boundary flags, rectangular or circular: in
  dimension 1 and in dimension 3 the setup of \<^verbatim>\<open>run\<close> (device arrays and parameter
  serialization) raises nothing; in every dimension other than 1, 2 and 3 it raises
  \<^verbatim>\<open>UnboundLocalError\<close>, in the setup, before any step. In the kernel the update is
  guarded by \<^verbatim>\<open>dim == 2\<close>: on buffers of any other width, the lane of an agent that is
  not Fixed leaves the destination position and velocity buffers as they were, so
  there is no random walk and no boundary handling there.
\<close>

theorem setup_other_dimensions:
  assumes "geom e = Geometry_init d a None None"
    and "a = None \<or> a = Some ''rectangular'' \<or> a = Some ''circular''"
  shows "(d = 1 \<or> d = 3 \<longrightarrow> fst (run_setup lib jp jv e) = None)
       \<and> (d \<noteq> 1 \<and> d \<noteq> 2 \<and> d \<noteq> 3 \<longrightarrow> fst (run_setup lib jp jv e) = Some UnboundLocalError)
       \<and> (length (src_p ! i) \<noteq> 2 \<and> get1 aty i \<noteq> Inr 0 \<longrightarrow>
            fst (snd (CUDA_step_lane normal i aty src_p src_v nz prm (dst_p, dst_v, g))) = dst_p
          \<and> fst (snd (snd (CUDA_step_lane normal i aty src_p src_v nz prm (dst_p, dst_v, g))))
              = dst_v)"
proof (intro conjI impI)
  assume "d = 1 \<or> d = 3"
  then show "fst (run_setup lib jp jv e) = None"
    using assms serialize_default_1 [of a] serialize_default_3 [of a]
    by (auto simp add: run_setup_fst)
next
  assume "d \<noteq> 1 \<and> d \<noteq> 2 \<and> d \<noteq> 3"
  then have "serialize_param (geom e) = Inl UnboundLocalError"
    using assms by (intro serialize_other) (simp_all add: Geometry_init_def Let_def)
  then show "fst (run_setup lib jp jv e) = Some UnboundLocalError"
    by (simp add: run_setup_fst)
next
  assume h: "length (src_p ! i) \<noteq> 2 \<and> get1 aty i \<noteq> Inr 0"
  then have a: "length (src_p ! i) \<noteq> 2" and b: "get1 aty i \<noteq> Inr 0" by simp_all
  show "fst (snd (CUDA_step_lane normal i aty src_p src_v nz prm (dst_p, dst_v, g))) = dst_p"
    by (simp add: lane_no_write [OF a b])
next
  assume h: "length (src_p ! i) \<noteq> 2 \<and> get1 aty i \<noteq> Inr 0"
  then have a: "length (src_p ! i) \<noteq> 2" and b: "get1 aty i \<noteq> Inr 0" by simp_all
  show "fst (snd (snd (CUDA_step_lane normal i aty src_p src_v nz prm (dst_p, dst_v, g))))
          = dst_v"
    by (simp add: lane_no_write [OF a b])
qed

theorem setup_other_dimensions_witness:
  "fst (run_setup zero_lib (const_mem 0) (const_mem 0) (Engine_init 1 None None None)) = None
   \<and> fst (run_setup zero_lib (const_mem 0) (const_mem 0)
            (Engine_init 4 (Some ''circular'') None None))
       = Some UnboundLocalError
   \<and> fst (snd (CUDA_step_lane (normal_float32 zero_lib) 0 [1] [[0, 0, 0]] [[1, 0, 0]]
                 [[0, 1 / 10, 0]] [1, 1 / 2, 1 / 2, 1 / 2, 1, 1, 1]
                 ([[5, 5, 5]], [[6, 6, 6]], [()])))
       = [[5, 5, 5]]
   \<and> fst (snd (snd (CUDA_step_lane (normal_float32 zero_lib) 0 [1] [[0, 0, 0]] [[1, 0, 0]]
                 [[0, 1 / 10, 0]] [1, 1 / 2, 1 / 2, 1 / 2, 1, 1, 1]
                 ([[5, 5, 5]], [[6, 6, 6]], [()]))))
       = [[6, 6, 6]]"
  using setup_other_dimensions
      [of "Engine_init 1 None None None" 1 None zero_lib "const_mem 0" "const_mem 0"
          "[[0, 0, 0]]" 0 "[1]" "normal_float32 zero_lib" "[[1, 0, 0]]" "[[0, 1 / 10, 0]]"
          "[1, 1 / 2, 1 / 2, 1 / 2, 1, 1, 1]" "[[5, 5, 5]]" "[[6, 6, 6]]" "[()]"]
    setup_other_dimensions
      [of "Engine_init 4 (Some ''circular'') None None" 4 "Some ''circular''" zero_lib
          "const_mem 0" "const_mem 0"
          "[[0, 0, 0]]" 0 "[1]" "normal_float32 zero_lib" "[[1, 0, 0]]" "[[0, 1 / 10, 0]]"
          "[1, 1 / 2, 1 / 2, 1 / 2, 1, 1, 1]" "[[5, 5, 5]]" "[[6, 6, 6]]" "[()]"]
  by (simp add: Engine_init_def get1_def)

end
